theory Spec2Isabelle
  imports Main "HOL-Library.Word"
begin

section \<open>Python values, strings and exceptions\<close>

text \<open>
  A Python \<open>str\<close> is modelled as a \<open>string\<close> whose characters are the code points
  U+0000 to U+00FF. Cell and parameter values are \<open>pyval\<close>; a raised exception is the
  \<open>Inl\<close> branch of a sum.
\<close>

datatype pyval = PyNone | PyInt int | PyStr string

type_synonym row = "pyval list"

type_synonym byte = "8 word"

datatype exn =
    DriverError string
  | CredentialError string
  | IndexError
  | TypeError
  | ValueError
  | StructError
  | DatabaseConnectionError string "exn option"

text \<open>\<open>str(err)\<close>, as the f-strings of the source render an exception.\<close>

fun exn_str :: "exn \<Rightarrow> string" where
  "exn_str (DriverError s) = s"
| "exn_str (CredentialError s) = s"
| "exn_str IndexError = ''list index out of range''"
| "exn_str TypeError = [CHR 0x27] @ ''NoneType'' @ [CHR 0x27] @ '' object is not iterable''"
| "exn_str ValueError = ''columns do not match the data''"
| "exn_str StructError = ''argument out of range''"
| "exn_str (DatabaseConnectionError s _) = s"

text \<open>\<open>str.isspace\<close> on the code points below 256.\<close>

definition is_space :: "char \<Rightarrow> bool" where
  "is_space c = ((of_char c :: nat) \<in> set [9, 10, 11, 12, 13, 28, 29, 30, 31, 32, 133, 160])"

text \<open>\<open>s.strip()\<close>\<close>

definition strip :: "string \<Rightarrow> string" where
  "strip s = dropWhile is_space (rev (dropWhile is_space (rev s)))"

fun starts_with :: "string \<Rightarrow> string \<Rightarrow> bool" where
  "starts_with [] s = True"
| "starts_with (p # ps) [] = False"
| "starts_with (p # ps) (c # cs) = (p = c \<and> starts_with ps cs)"

text \<open>
  \<open>s.split(sep)\<close> for a non-empty separator: the pieces between the non-overlapping
  occurrences of \<open>sep\<close>, found left to right. \<open>acc\<close> holds the current piece, reversed.
\<close>

fun split_from :: "string \<Rightarrow> string \<Rightarrow> string \<Rightarrow> string list" where
  "split_from sep acc [] = [rev acc]"
| "split_from sep acc (c # cs) =
     (if sep \<noteq> [] \<and> starts_with sep (c # cs)
      then rev acc # split_from sep [] (drop (length sep) (c # cs))
      else split_from sep (c # acc) cs)"

definition split :: "string \<Rightarrow> string \<Rightarrow> string list" where
  "split s sep = split_from sep [] s"

text \<open>\<open>sep.join(xs)\<close>\<close>

fun join :: "string \<Rightarrow> string list \<Rightarrow> string" where
  "join sep [] = []"
| "join sep [x] = x"
| "join sep (x # y # ys) = x @ sep @ join sep (y # ys)"

definition newline :: char where
  "newline = CHR 0x0A"

section \<open>The driver boundary\<close>

text \<open>
  One resultset of a batch: its column descriptor (the names \<open>desc[0]\<close>, or \<open>None\<close>) and
  what \<open>fetchall\<close> gives on it (the rows, or the driver's error).
\<close>

datatype resultset = ResultSet (description: "string list option") (fetch: "string + row list")

text \<open>
  A cursor is positioned on one resultset; \<open>pending\<close> are the ones \<open>nextset\<close> will reach,
  an \<open>Inl\<close> entry being an error the driver raises when it advances there.
\<close>

record cursor =
  current :: "resultset option"
  pending :: "(string + resultset) list"

text \<open>
  The driver and the database behind it, over a database state \<open>'d\<close>. Each function says
  whether the call raises (the driver's message) and what it yields.
\<close>

record 'd driver =
  connect :: "string \<Rightarrow> (nat \<times> byte list) list \<Rightarrow> string option"
  new_cursor :: "'d \<Rightarrow> string option"
  exec :: "'d \<Rightarrow> string \<Rightarrow> pyval list \<Rightarrow> (string + resultset \<times> (string + resultset) list) \<times> 'd"
  commit :: "'d \<Rightarrow> string option \<times> 'd"

text \<open>The calls made on the driver, in order, as a mock of the driver records them.\<close>

datatype call =
    Connect string "(nat \<times> byte list) list"
  | CursorOpen
  | Execute string "pyval list"
  | CursorClose
  | Commit
  | ConnectionClose

datatype level = INFO | WARNING | ERROR

datatype message = Text string | Traceback exn

text \<open>
  \<open>DatabaseConnection\<close>: \<open>has_connection\<close> is \<open>self._connection is not None\<close>, \<open>db\<close> the
  state of the database the connection talks to; \<open>calls\<close> and \<open>logs\<close> are the effects
  on the driver and on \<open>logging\<close>.
\<close>

record 'd manager =
  has_connection :: bool
  initialized :: bool
  db :: 'd
  calls :: "call list"
  logs :: "(level \<times> message) list"

definition log :: "level \<Rightarrow> message \<Rightarrow> 'd manager \<Rightarrow> 'd manager" where
  "log l t m = m\<lparr>logs := logs m @ [(l, t)]\<rparr>"

definition not_established :: "string \<Rightarrow> exn" where
  "not_established s = DatabaseConnectionError s None"

subsection \<open>Cursor operations\<close>

text \<open>\<open>self._connection.cursor()\<close>\<close>

definition open_cursor :: "'d driver \<Rightarrow> 'd manager \<Rightarrow> (string + cursor) \<times> 'd manager" where
  "open_cursor drv m =
     (let m' = m\<lparr>calls := calls m @ [CursorOpen]\<rparr>
      in case new_cursor drv (db m) of
           Some e \<Rightarrow> (Inl e, m')
         | None \<Rightarrow> (Inr \<lparr>current = None, pending = []\<rparr>, m'))"

text \<open>\<open>cursor.close()\<close>; closing an open cursor does not raise.\<close>

definition close_cursor :: "'d manager \<Rightarrow> 'd manager" where
  "close_cursor m = m\<lparr>calls := calls m @ [CursorClose]\<rparr>"

text \<open>\<open>cursor.execute(sql, params)\<close>; \<open>cursor.execute(sql)\<close> is the call with no parameters.\<close>

definition cursor_execute ::
  "'d driver \<Rightarrow> string \<Rightarrow> pyval list \<Rightarrow> 'd manager \<Rightarrow> (string + cursor) \<times> 'd manager" where
  "cursor_execute drv sql ps m =
     (case exec drv (db m) sql ps of (r, d') \<Rightarrow>
        (let m' = m\<lparr>db := d', calls := calls m @ [Execute sql ps]\<rparr>
         in case r of
              Inl e \<Rightarrow> (Inl e, m')
            | Inr (r0, rest) \<Rightarrow> (Inr \<lparr>current = Some r0, pending = rest\<rparr>, m')))"

text \<open>\<open>cursor.description\<close>\<close>

definition cursor_description :: "cursor \<Rightarrow> string list option" where
  "cursor_description c = (case current c of None \<Rightarrow> None | Some r \<Rightarrow> description r)"

text \<open>\<open>cursor.fetchall()\<close>\<close>

definition fetchall :: "cursor \<Rightarrow> string + row list" where
  "fetchall c =
     (case current c of
        None \<Rightarrow> Inl ''No results.  Previous SQL was not a query.''
      | Some r \<Rightarrow> fetch r)"

text \<open>\<open>cursor.nextset()\<close>: \<open>False\<close> when no resultset is left.\<close>

definition nextset :: "cursor \<Rightarrow> (string + bool) \<times> cursor" where
  "nextset c =
     (case pending c of
        [] \<Rightarrow> (Inr False, c\<lparr>current := None\<rparr>)
      | Inl e # rest \<Rightarrow> (Inl e, \<lparr>current = None, pending = rest\<rparr>)
      | Inr r # rest \<Rightarrow> (Inr True, \<lparr>current = Some r, pending = rest\<rparr>))"

section \<open>Tabular results\<close>

datatype table = DataFrame (columns: "string list") (records: "row list")

text \<open>\<open>pd.DataFrame()\<close>\<close>

definition empty_frame :: table where
  "empty_frame = DataFrame [] []"

text \<open>
  \<open>pd.DataFrame.from_records(rows, columns=columns)\<close>, which belongs to pandas: no rows
  give the empty frame with the columns; otherwise every row is padded with missing values
  to the length of the longest, and it raises when that length is not the number of
  columns.
\<close>

definition pad_row :: "nat \<Rightarrow> row \<Rightarrow> row" where
  "pad_row k r = r @ replicate (k - length r) PyNone"

definition from_records :: "row list \<Rightarrow> string list \<Rightarrow> exn + table" where
  "from_records rs cols =
     (if rs = [] then Inr (DataFrame cols [])
      else
        (let k = foldr max (map length rs) 0
         in if k = length cols then Inr (DataFrame cols (map (pad_row k) rs))
            else Inl ValueError))"

section \<open>Connection Manager\<close>

datatype byteorder = LittleEndian | BigEndian

text \<open>
  \<open>struct.pack("=i", n)\<close>: a signed 32-bit integer in four bytes, in the byte order of
  the host; \<open>struct.error\<close> when \<open>n\<close> does not fit.
\<close>

definition struct_pack_i :: "byteorder \<Rightarrow> int \<Rightarrow> exn + byte list" where
  "struct_pack_i native n =
     (if - (2 ^ 31) \<le> n \<and> n < 2 ^ 31
      then (let u = n mod 2 ^ 32;
                bs = [word_of_int (u mod 256), word_of_int (u div 256 mod 256),
                      word_of_int (u div 65536 mod 256), word_of_int (u div 16777216 mod 256)]
            in Inr (case native of LittleEndian \<Rightarrow> bs | BigEndian \<Rightarrow> rev bs))
      else Inl StructError)"

text \<open>\<open>bytes(token, "UTF-8")\<close> on code points below 256: one byte below 128, two above.\<close>

definition utf8_char :: "char \<Rightarrow> byte list" where
  "utf8_char c =
     (let n = (of_char c :: nat)
      in if n < 128 then [of_nat n] else [of_nat (192 + n div 64), of_nat (128 + n mod 64)])"

definition utf8 :: "string \<Rightarrow> byte list" where
  "utf8 s = concat (map utf8_char s)"

text \<open>
  The loop \<open>for i in bytes(token, "UTF-8"): exptoken += bytes({i}); exptoken += bytes(1)\<close>,
  \<open>exptoken\<close> being the accumulator.
\<close>

fun expand_token :: "byte list \<Rightarrow> byte list \<Rightarrow> byte list" where
  "expand_token exptoken [] = exptoken"
| "expand_token exptoken (i # rest) = expand_token ((exptoken @ [i]) @ [0]) rest"

definition SQL_COPT_SS_ACCESS_TOKEN :: nat where
  "SQL_COPT_SS_ACCESS_TOKEN = 1256"

definition connection_string :: "string \<Rightarrow> string \<Rightarrow> string \<Rightarrow> string" where
  "connection_string server database drivername =
     ''DRIVER='' @ drivername @ '';SERVER='' @ server @ '';DATABASE='' @ database"

text \<open>The \<open>except Exception\<close> handler of \<open>_setup_connection\<close>.\<close>

definition setup_failed :: "exn \<Rightarrow> 'd manager \<Rightarrow> (exn + unit) \<times> 'd manager" where
  "setup_failed err m =
     (Inl (DatabaseConnectionError (''Database connection not established: '' @ exn_str err) (Some err)),
      log ERROR (Traceback err) (log ERROR (Traceback err) m))"

text \<open>\<open>pyodbc.connect(cs, attrs_before = attrs)\<close>, storing the handle on success.\<close>

definition do_connect ::
  "'d driver \<Rightarrow> string \<Rightarrow> (nat \<times> byte list) list \<Rightarrow> 'd manager \<Rightarrow> (exn + unit) \<times> 'd manager" where
  "do_connect drv cs attrs m =
     (let m' = m\<lparr>calls := calls m @ [Connect cs attrs]\<rparr>
      in case connect drv cs attrs of
           Some e \<Rightarrow> setup_failed (DriverError e) m'
         | None \<Rightarrow> (Inr (), m'\<lparr>has_connection := True\<rparr>))"

text \<open>
  \<open>_setup_connection\<close>. \<open>get_token\<close> is what the credential provider answers for the
  scope \<open>https://database.windows.net/\<close>: the token, or the error it raises.
\<close>

definition setup_connection ::
  "'d driver \<Rightarrow> byteorder \<Rightarrow> (exn + string) \<Rightarrow> string \<Rightarrow> string \<Rightarrow> string \<Rightarrow> string \<Rightarrow>
   'd manager \<Rightarrow> (exn + unit) \<times> 'd manager" where
  "setup_connection drv native get_token server database drivername localRun m =
     (let m0 = log INFO (Text (''Initializing connection with server='' @ server @ '', database=''
                  @ database @ '', driver='' @ drivername @ '', localRun='' @ localRun)) m;
          cs = connection_string server database drivername
      in case get_token of
           Inl err \<Rightarrow> setup_failed err m0
         | Inr token \<Rightarrow>
             if localRun \<noteq> ''LOCAL''
             then do_connect drv (cs @ '';Authentication=ActiveDirectoryMsi'') []
                    (log INFO (Text ''Connection Using Authentication=ActiveDirectoryMsi'') m0)
             else
               (let m1 = log INFO (Text ''Connection Using SQL_COPT_SS_ACCESS_Token'') m0;
                    exptoken = expand_token [] (utf8 token)
                in case struct_pack_i native (int (length exptoken)) of
                     Inl err \<Rightarrow> setup_failed err m1
                   | Inr hdr \<Rightarrow> do_connect drv cs [(SQL_COPT_SS_ACCESS_TOKEN, hdr @ exptoken)] m1))"

text \<open>\<open>__init__\<close>: \<open>_connection = None\<close>, then \<open>_setup_connection\<close>.\<close>

definition construct ::
  "'d driver \<Rightarrow> byteorder \<Rightarrow> (exn + string) \<Rightarrow> string \<Rightarrow> string \<Rightarrow> string \<Rightarrow> string \<Rightarrow>
   'd \<Rightarrow> (exn + unit) \<times> 'd manager" where
  "construct drv native get_token server database drivername localRun d =
     setup_connection drv native get_token server database drivername localRun
       \<lparr>has_connection = False, initialized = True, db = d, calls = [], logs = []\<rparr>"

definition get_connection :: "'d manager \<Rightarrow> exn + 'd" where
  "get_connection m =
     (if \<not> has_connection m then Inl (not_established ''Database connection not established.'')
      else Inr (db m))"

definition close_connection :: "'d manager \<Rightarrow> 'd manager" where
  "close_connection m =
     (if has_connection m
      then m\<lparr>has_connection := False, initialized := False, calls := calls m @ [ConnectionClose]\<rparr>
      else m)"

section \<open>Statement Executor\<close>

subsection \<open>\<open>call_stored_procedure_with_select\<close>\<close>

text \<open>
  The \<open>parameters\<close> argument by its runtime type: a dict (its items in insertion order,
  the keys being strings), a list, a tuple, or anything else.
\<close>

datatype parameters = ParamDict "(string \<times> pyval) list" | ParamList "pyval list"
  | ParamTuple "pyval list" | ParamOther pyval

text \<open>The \<open>isinstance\<close> chain: the placeholders of the \<open>EXEC\<close> and the values bound.\<close>

fun bind_parameters :: "parameters \<Rightarrow> string \<times> pyval list" where
  "bind_parameters (ParamDict kvs) =
     (join '', '' (map (\<lambda>key. ''@'' @ key @ '' = ?'') (map fst kvs)), map snd kvs)"
| "bind_parameters (ParamList xs) = (join '', '' (replicate (length xs) ''?''), xs)"
| "bind_parameters _ = ([], [])"

text \<open>The f-string \<open>sql_query\<close>, with the line breaks and indentation of the source.\<close>

definition sql_query :: "string \<Rightarrow> string \<Rightarrow> string \<Rightarrow> string" where
  "sql_query procedure_name param_placeholders temp_table_name =
     newline # replicate 12 CHR '' '' @ ''EXEC '' @ procedure_name @ '' '' @ param_placeholders @ '';''
     @ newline # replicate 12 CHR '' '' @ ''SELECT * FROM '' @ temp_table_name @ '';''
     @ newline # replicate 12 CHR '' ''"

text \<open>
  The body of the inner \<open>try\<close>: the columns of the descriptor (\<open>TypeError\<close> when it is
  \<open>None\<close>), the rows, the frame.
\<close>

definition to_frame :: "cursor \<Rightarrow> exn + table" where
  "to_frame c =
     (case cursor_description c of
        None \<Rightarrow> Inl TypeError
      | Some cols \<Rightarrow>
          (case fetchall c of
             Inl e \<Rightarrow> Inl (DriverError e)
           | Inr rs \<Rightarrow> from_records rs cols))"

text \<open>
  The \<open>while True\<close> loop: \<open>Inr (Some df)\<close> is \<open>return df\<close>, \<open>Inr None\<close> is the
  \<open>break\<close>, \<open>Inl\<close> an error of \<open>nextset\<close>, which the inner \<open>try\<close> does not cover.
\<close>

function skip_to_frame :: "cursor \<Rightarrow> exn + table option" where
  "skip_to_frame c =
     (case to_frame c of
        Inr df \<Rightarrow> Inr (Some df)
      | Inl _ \<Rightarrow>
          (case nextset c of
             (Inl e, _) \<Rightarrow> Inl (DriverError e)
           | (Inr has_next, c') \<Rightarrow> if has_next then skip_to_frame c' else Inr None))"
  by pat_completeness auto
termination
  by (relation "measure (\<lambda>c. length (pending c))")
     (auto simp: nextset_def split: list.splits sum.splits)

declare skip_to_frame.simps [simp del]

text \<open>The outer \<open>try\<close> block.\<close>

definition call_procedure_body ::
  "'d driver \<Rightarrow> string \<Rightarrow> parameters \<Rightarrow> string \<Rightarrow> 'd manager \<Rightarrow> (exn + table) \<times> 'd manager" where
  "call_procedure_body drv procedure_name params temp_table_name m =
     (case open_cursor drv m of
        (Inl e, m1) \<Rightarrow> (Inl (DriverError e), m1)
      | (Inr c, m1) \<Rightarrow>
          (case bind_parameters params of (param_placeholders, param_values) \<Rightarrow>
             (case cursor_execute drv
                     (sql_query procedure_name param_placeholders temp_table_name) param_values m1 of
                (Inl e, m2) \<Rightarrow> (Inl (DriverError e), m2)
              | (Inr c', m2) \<Rightarrow>
                  (case skip_to_frame c' of
                     Inl e \<Rightarrow> (Inl e, m2)
                   | Inr (Some df) \<Rightarrow> (Inr df, m2)
                   | Inr None \<Rightarrow>
                       (Inr empty_frame,
                        log WARNING (Text ''No results returned from combined SP and select.'') m2)))))"

text \<open>The result \<open>Inr None\<close> is Python's \<open>None\<close>.\<close>

definition call_stored_procedure_with_select ::
  "'d driver \<Rightarrow> string \<Rightarrow> parameters \<Rightarrow> string \<Rightarrow> 'd manager \<Rightarrow> (exn + table option) \<times> 'd manager" where
  "call_stored_procedure_with_select drv procedure_name params temp_table_name m =
     (if \<not> has_connection m then (Inl (not_established ''Database connection not established''), m)
      else
        (case call_procedure_body drv procedure_name params temp_table_name m of
           (Inr df, m') \<Rightarrow> (Inr (Some df), m')
         | (Inl e, m') \<Rightarrow>
             (Inr None,
              log ERROR (Text (''Error calling stored procedure with select: '' @ exn_str e)) m')))"

subsection \<open>\<open>run_script_and_get_last_result\<close>\<close>

text \<open>\<open>[batch.strip() for batch in script.split("\nGO\n") if batch.strip()]\<close>\<close>

definition batches_of :: "string \<Rightarrow> string list" where
  "batches_of script =
     map strip (filter (\<lambda>batch. strip batch \<noteq> []) (split script (newline # ''GO'' @ [newline])))"

text \<open>\<open>while cursor.nextset(): pass\<close>\<close>

function drain :: "cursor \<Rightarrow> string option" where
  "drain c =
     (case nextset c of
        (Inl e, _) \<Rightarrow> Some e
      | (Inr has_next, c') \<Rightarrow> if has_next then drain c' else None)"
  by pat_completeness auto
termination
  by (relation "measure (\<lambda>c. length (pending c))")
     (auto simp: nextset_def split: list.splits sum.splits)

declare drain.simps [simp del]

text \<open>\<open>for batch in batches[:-1]\<close>, on the list \<open>batches[:-1]\<close>; \<open>Some e\<close> is a raise.\<close>

fun run_leading :: "'d driver \<Rightarrow> string list \<Rightarrow> 'd manager \<Rightarrow> exn option \<times> 'd manager" where
  "run_leading drv [] m = (None, m)"
| "run_leading drv (batch # rest) m =
     (case cursor_execute drv batch [] m of
        (Inl e, m') \<Rightarrow> (Some (DriverError e), m')
      | (Inr c, m') \<Rightarrow>
          (case drain c of
             Some e \<Rightarrow> (Some (DriverError e), m')
           | None \<Rightarrow> run_leading drv rest m'))"

text \<open>\<open>while cursor.description is None and cursor.nextset(): pass\<close>\<close>

function skip_undescribed :: "cursor \<Rightarrow> string + cursor" where
  "skip_undescribed c =
     (if cursor_description c = None
      then (case nextset c of
              (Inl e, _) \<Rightarrow> Inl e
            | (Inr has_next, c') \<Rightarrow> if has_next then skip_undescribed c' else Inr c')
      else Inr c)"
  by pat_completeness auto
termination
  by (relation "measure (\<lambda>c. length (pending c))")
     (auto simp: nextset_def split: list.splits sum.splits)

declare skip_undescribed.simps [simp del]

text \<open>\<open>params or []\<close>\<close>

definition params_or_none :: "pyval list option \<Rightarrow> pyval list" where
  "params_or_none params = (case params of None \<Rightarrow> [] | Some ps \<Rightarrow> ps)"

text \<open>
  \<open>if params: cursor.execute(batches[-1], params) else: cursor.execute(batches[-1])\<close>;
  \<open>params\<close> is \<open>None\<close> or a tuple, and the empty tuple is false as \<open>None\<close> is.
\<close>

definition execute_last ::
  "'d driver \<Rightarrow> string \<Rightarrow> pyval list option \<Rightarrow> 'd manager \<Rightarrow> (string + cursor) \<times> 'd manager" where
  "execute_last drv batch params m =
     (case params of
        None \<Rightarrow> cursor_execute drv batch [] m
      | Some ps \<Rightarrow> if ps \<noteq> [] then cursor_execute drv batch ps m else cursor_execute drv batch [] m)"

text \<open>
  After the last execute: the \<open>while\<close> loop, the columns of the descriptor (\<open>TypeError\<close>
  when it is \<open>None\<close>), \<open>fetchall\<close> and the frame.
\<close>

definition fetch_result :: "cursor \<Rightarrow> exn + table" where
  "fetch_result c =
     (case skip_undescribed c of
        Inl e \<Rightarrow> Inl (DriverError e)
      | Inr c' \<Rightarrow>
          (case cursor_description c' of
             None \<Rightarrow> Inl TypeError
           | Some cols \<Rightarrow>
               (case fetchall c' of
                  Inl e \<Rightarrow> Inl (DriverError e)
                | Inr rs \<Rightarrow> from_records rs cols)))"

text \<open>The \<open>try\<close> block, the cursor being open; \<open>batches[-1]\<close> raises on the empty list.\<close>

definition run_script_body ::
  "'d driver \<Rightarrow> string list \<Rightarrow> pyval list option \<Rightarrow> 'd manager \<Rightarrow> (exn + table) \<times> 'd manager" where
  "run_script_body drv batches params m =
     (case run_leading drv (butlast batches) m of
        (Some e, m1) \<Rightarrow> (Inl e, m1)
      | (None, m1) \<Rightarrow>
          (if batches = [] then (Inl IndexError, m1)
           else
             (case execute_last drv (last batches) params m1 of
                (Inl e, m2) \<Rightarrow> (Inl (DriverError e), m2)
              | (Inr c, m2) \<Rightarrow> (fetch_result c, m2))))"

text \<open>The cursor is obtained before the \<open>try\<close>; \<open>finally\<close> closes it.\<close>

definition run_script_and_get_last_result ::
  "'d driver \<Rightarrow> string \<Rightarrow> pyval list option \<Rightarrow> 'd manager \<Rightarrow> (exn + table) \<times> 'd manager" where
  "run_script_and_get_last_result drv script params m =
     (if \<not> has_connection m then (Inl (not_established ''Database connection not established''), m)
      else
        (case open_cursor drv m of
           (Inl e, m1) \<Rightarrow> (Inl (DriverError e), m1)
         | (Inr c, m1) \<Rightarrow>
             (case run_script_body drv (batches_of script) params m1 of
                (r, m2) \<Rightarrow> (r, close_cursor m2))))"

subsection \<open>\<open>read_sql\<close>\<close>

text \<open>
  \<open>pd.read_sql(query, self._connection)\<close> belongs to pandas; it is the parameter
  \<open>pd_read_sql\<close>, which works on the connection and returns a frame or raises.
\<close>

definition read_sql ::
  "(string \<Rightarrow> 'd manager \<Rightarrow> (exn + table) \<times> 'd manager) \<Rightarrow> string \<Rightarrow> 'd manager \<Rightarrow>
   (exn + table) \<times> 'd manager" where
  "read_sql pd_read_sql query m =
     (if \<not> has_connection m then (Inl (not_established ''Database connection not established''), m)
      else
        (case pd_read_sql query m of
           (Inl err, m') \<Rightarrow>
             (Inl (DatabaseConnectionError (''Error executing query: '' @ exn_str err) (Some err)), m')
         | (Inr df, m') \<Rightarrow> (Inr df, m')))"

text \<open>
  A reader in the manner of pandas on a DBAPI connection: one cursor, one execute, the
  frame of the first resultset, the cursor closed. It instantiates \<open>pd_read_sql\<close> in
  examples.
\<close>

definition cursor_reader :: "'d driver \<Rightarrow> string \<Rightarrow> 'd manager \<Rightarrow> (exn + table) \<times> 'd manager" where
  "cursor_reader drv query m =
     (case open_cursor drv m of
        (Inl e, m1) \<Rightarrow> (Inl (DriverError e), m1)
      | (Inr c, m1) \<Rightarrow>
          (case cursor_execute drv query [] m1 of
             (Inl e, m2) \<Rightarrow> (Inl (DriverError e), m2)
           | (Inr c', m2) \<Rightarrow> (to_frame c', close_cursor m2)))"

subsection \<open>\<open>execute_query\<close>\<close>

text \<open>The \<open>except\<close> clause of \<open>execute_query\<close>.\<close>

definition query_error :: "string \<Rightarrow> exn" where
  "query_error e = DatabaseConnectionError (''Error executing query: '' @ e) (Some (DriverError e))"

text \<open>
  \<open>cursor\<close> is still \<open>None\<close> in the \<open>finally\<close> when \<open>self._connection.cursor()\<close>
  raised; otherwise the \<open>finally\<close> closes it.
\<close>

definition execute_query ::
  "'d driver \<Rightarrow> string \<Rightarrow> pyval list option \<Rightarrow> 'd manager \<Rightarrow> (exn + row list) \<times> 'd manager" where
  "execute_query drv query params m =
     (if \<not> has_connection m then (Inl (not_established ''Database connection not established''), m)
      else
        (case open_cursor drv m of
           (Inl e, m1) \<Rightarrow> (Inl (query_error e), m1)
         | (Inr c, m1) \<Rightarrow>
             (case cursor_execute drv query (params_or_none params) m1 of
                (Inl e, m2) \<Rightarrow> (Inl (query_error e), close_cursor m2)
              | (Inr c', m2) \<Rightarrow>
                  (case fetchall c' of
                     Inl e \<Rightarrow> (Inl (query_error e), close_cursor m2)
                   | Inr rs \<Rightarrow> (Inr rs, close_cursor m2)))))"

subsection \<open>\<open>run_multistatement_script\<close>\<close>

text \<open>\<open>for stmt in ...: if stmt.strip(): cursor.execute(stmt)\<close>\<close>

fun execute_statements :: "'d driver \<Rightarrow> string list \<Rightarrow> 'd manager \<Rightarrow> exn option \<times> 'd manager" where
  "execute_statements drv [] m = (None, m)"
| "execute_statements drv (stmt # rest) m =
     (if strip stmt \<noteq> []
      then (case cursor_execute drv stmt [] m of
              (Inl e, m') \<Rightarrow> (Some (DriverError e), m')
            | (Inr c, m') \<Rightarrow> execute_statements drv rest m')
      else execute_statements drv rest m)"

text \<open>\<open>self._connection.commit()\<close>\<close>

definition connection_commit :: "'d driver \<Rightarrow> 'd manager \<Rightarrow> (exn + unit) \<times> 'd manager" where
  "connection_commit drv m =
     (case commit drv (db m) of (r, d') \<Rightarrow>
        (let m' = m\<lparr>db := d', calls := calls m @ [Commit]\<rparr>
         in case r of Some e \<Rightarrow> (Inl (DriverError e), m') | None \<Rightarrow> (Inr (), m')))"

definition run_multistatement_script ::
  "'d driver \<Rightarrow> string \<Rightarrow> 'd manager \<Rightarrow> (exn + unit) \<times> 'd manager" where
  "run_multistatement_script drv script m =
     (if \<not> has_connection m then (Inl (not_established ''No active DB connection.''), m)
      else
        (case open_cursor drv m of
           (Inl e, m1) \<Rightarrow> (Inl (DriverError e), m1)
         | (Inr c, m1) \<Rightarrow>
             (case execute_statements drv (split (strip script) '';'') m1 of
                (Some e, m2) \<Rightarrow> (Inl e, m2)
              | (None, m2) \<Rightarrow> connection_commit drv m2)))"

section \<open>Report pipeline: the comparison colouring\<close>

text \<open>
  A row of \<open>comparison_df_simple\<close> after the outer merge: four columns, a quantity being
  \<open>None\<close> (NaN) where that side has no row for the NDC.
\<close>

record 'q comparison_row =
  ProductName :: "string option"
  NDC :: string
  ForecastedOrderQty :: "'q option"
  OrderedQty :: "'q option"

text \<open>\<open>.fillna(0)\<close> on one value.\<close>

definition fillna0 :: "'q::zero option \<Rightarrow> 'q option" where
  "fillna0 v = (case v of None \<Rightarrow> Some 0 | Some x \<Rightarrow> Some x)"

definition fill_quantities :: "('q::zero) comparison_row \<Rightarrow> 'q comparison_row" where
  "fill_quantities r =
     r\<lparr>ForecastedOrderQty := fillna0 (ForecastedOrderQty r), OrderedQty := fillna0 (OrderedQty r)\<rparr>"

text \<open>\<open>==\<close> on two cells: NaN is equal to nothing.\<close>

definition cell_eq :: "'q option \<Rightarrow> 'q option \<Rightarrow> bool" where
  "cell_eq a b = (case a of None \<Rightarrow> False | Some x \<Rightarrow> (case b of None \<Rightarrow> False | Some y \<Rightarrow> x = y))"

text \<open>\<open>len(row)\<close>\<close>

definition row_len :: "'q comparison_row \<Rightarrow> nat" where
  "row_len r = 4"

definition red :: string where
  "red = ''background-color: lightcoral''"

definition green :: string where
  "green = ''background-color: lightgreen''"

definition yellow :: string where
  "yellow = ''background-color: lightyellow''"

definition highlight_qty :: "('q::zero) comparison_row \<Rightarrow> string list" where
  "highlight_qty r =
     (if cell_eq (ForecastedOrderQty r) (Some 0) \<or> cell_eq (OrderedQty r) (Some 0)
      then replicate (row_len r) red
      else if cell_eq (ForecastedOrderQty r) (OrderedQty r)
      then replicate (row_len r) green
      else replicate (row_len r) yellow)"

section \<open>The specification's reading of the operations\<close>

text \<open>
  What the specification says of a sequence of resultsets, stated on the sequence itself:
  the first one that satisfies a condition, the sequence being exhausted, or the driver
  raising while it advances.
\<close>

datatype 'a scan = Found 'a | Exhausted | Raised string

text \<open>The frame a resultset converts to, if it converts.\<close>

definition frame_of :: "resultset \<Rightarrow> table option" where
  "frame_of r =
     (case description r of
        None \<Rightarrow> None
      | Some cols \<Rightarrow>
          (case fetch r of
             Inl e \<Rightarrow> None
           | Inr rs \<Rightarrow> (case from_records rs cols of Inl e \<Rightarrow> None | Inr df \<Rightarrow> Some df)))"

text \<open>The first resultset that can be converted into a table.\<close>

fun first_frame :: "(string + resultset) list \<Rightarrow> table scan" where
  "first_frame [] = Exhausted"
| "first_frame (Inl e # rest) = Raised e"
| "first_frame (Inr r # rest) =
     (case frame_of r of Some df \<Rightarrow> Found df | None \<Rightarrow> first_frame rest)"





text \<open>
  The step of \<open>CallProcedureWithSelect\<close> that fails, if one does: obtaining the cursor,
  executing the batch, or advancing through its resultsets.
\<close>

definition failing_step :: "'d driver \<Rightarrow> string \<Rightarrow> pyval list \<Rightarrow> 'd \<Rightarrow> string option" where
  "failing_step drv sql ps d =
     (case new_cursor drv d of
        Some e \<Rightarrow> Some e
      | None \<Rightarrow>
          (case exec drv d sql ps of
             (Inl e, d') \<Rightarrow> Some e
           | (Inr (r0, following), d') \<Rightarrow>
               (case first_frame (Inr r0 # following) of Raised e \<Rightarrow> Some e | _ \<Rightarrow> None)))"

text \<open>
  Parameter binding as the specification words it: a mapping gives named placeholders, an
  ordered sequence (a list or a tuple) positional ones, anything else none.
\<close>

fun spec_bind_parameters :: "parameters \<Rightarrow> string \<times> pyval list" where
  "spec_bind_parameters (ParamDict kvs) =
     (join '', '' (map (\<lambda>(key, v). ''@'' @ key @ '' = ?'') kvs), map snd kvs)"
| "spec_bind_parameters (ParamList xs) = (join '', '' (map (\<lambda>v. ''?'') xs), xs)"
| "spec_bind_parameters (ParamTuple xs) = (join '', '' (map (\<lambda>v. ''?'') xs), xs)"
| "spec_bind_parameters (ParamOther v) = ([], [])"

text \<open>A quantity with an absent one read as zero.\<close>

definition filled :: "'q::zero option \<Rightarrow> 'q" where
  "filled v = (case v of None \<Rightarrow> 0 | Some x \<Rightarrow> x)"

text \<open>Each byte followed by a zero byte.\<close>

definition interleave_zero :: "byte list \<Rightarrow> byte list" where
  "interleave_zero bs = concat (map (\<lambda>b. [b, 0]) bs)"

text \<open>The little-endian encoding of a number in \<open>k\<close> bytes, and its decoding.\<close>

fun le_bytes :: "nat \<Rightarrow> nat \<Rightarrow> byte list" where
  "le_bytes 0 n = []"
| "le_bytes (Suc k) n = of_nat (n mod 256) # le_bytes k (n div 256)"

fun le_value :: "byte list \<Rightarrow> nat" where
  "le_value [] = 0"
| "le_value (b # bs) = unat b + 256 * le_value bs"

definition is_connection_error :: "exn \<Rightarrow> bool" where
  "is_connection_error e = (case e of DatabaseConnectionError s c \<Rightarrow> True | _ \<Rightarrow> False)"

text \<open>The outer \<open>except\<close> of \<open>call_stored_procedure_with_select\<close>, on a driver error \<open>e\<close>.\<close>

definition procedure_failed :: "string \<Rightarrow> 'd manager \<Rightarrow> (exn + table option) \<times> 'd manager" where
  "procedure_failed e m =
     (Inr None, log ERROR (Text (''Error calling stored procedure with select: '' @ e)) m)"

text \<open>The calls that send a statement.\<close>

fun is_execute :: "call \<Rightarrow> bool" where
  "is_execute (Execute sql ps) = True"
| "is_execute c = False"

text \<open>The statements \<open>run_multistatement_script\<close> executes: the pieces that are not blank.\<close>

definition statements_of :: "string \<Rightarrow> string list" where
  "statements_of script = filter (\<lambda>stmt. strip stmt \<noteq> []) (split (strip script) '';'')"

section \<open>Example drivers\<close>

text \<open>
  A database that answers the three batches of the specification's example, a batch
  whose first resultset has no column descriptor, and a procedure that raises.
\<close>

definition no_rows :: "string + row list" where
  "no_rows = Inl ''No results.  Previous SQL was not a query.''"

definition example_exec ::
  "string \<Rightarrow> pyval list \<Rightarrow> string + resultset \<times> (string + resultset) list" where
  "example_exec sql ps =
     (if sql = ''SELECT 1'' then Inr (ResultSet (Some ['''']) (Inr [[PyInt 1]]), [])
      else if sql = ''SELECT 2 WHERE 1=0'' then Inr (ResultSet (Some ['''']) (Inr []), [])
      else if sql = ''SELECT 3 AS x'' then Inr (ResultSet (Some [''x'']) (Inr [[PyInt 3]]), [])
      else if sql = ''UPDATE t SET a = ?; SELECT a FROM t''
      then Inr (ResultSet None no_rows, [Inr (ResultSet (Some [''a'']) (Inr [ps]))])
      else if sql = ''DELETE FROM t'' then Inr (ResultSet None no_rows, [])
      else if sql = sql_query ''fill_tmp'' ''?'' ''#tmp''
      then Inr (ResultSet None no_rows, [Inr (ResultSet (Some [''v'']) (Inr [ps]))])
      else if sql = sql_query ''no_output'' [] ''#tmp''
      then Inr (ResultSet None no_rows, [Inr (ResultSet None no_rows)])
      else Inl ''boom'')"

definition example_driver :: "unit driver" where
  "example_driver =
     \<lparr>connect = (\<lambda>cs attrs. None), new_cursor = (\<lambda>d. None),
      exec = (\<lambda>d sql ps. (example_exec sql ps, d)), commit = (\<lambda>d. (None, d))\<rparr>"

text \<open>
  The same database with three more batches: a procedure with several resultsets, one
  whose last resultset raises when the cursor advances to it, and a procedure call whose
  first resultset cannot be fetched while the second can.
\<close>

definition script_exec ::
  "string \<Rightarrow> pyval list \<Rightarrow> string + resultset \<times> (string + resultset) list" where
  "script_exec sql ps =
     (if sql = ''EXEC refresh''
      then Inr (ResultSet None no_rows,
                [Inr (ResultSet (Some [''n'']) (Inr [[PyInt 1]])), Inr (ResultSet None no_rows)])
      else if sql = ''EXEC broken''
      then Inr (ResultSet None no_rows, [Inr (ResultSet None no_rows), Inl ''deadlock victim''])
      else if sql = sql_query ''flaky'' [] ''#tmp''
      then Inr (ResultSet (Some [''a'']) (Inl ''conversion failed''),
                [Inr (ResultSet (Some [''v'']) (Inr [[PyInt 1]]))])
      else example_exec sql ps)"

definition script_driver :: "unit driver" where
  "script_driver =
     \<lparr>connect = (\<lambda>cs attrs. None), new_cursor = (\<lambda>d. None),
      exec = (\<lambda>d sql ps. (script_exec sql ps, d)), commit = (\<lambda>d. (None, d))\<rparr>"

definition connected :: "unit manager" where
  "connected = \<lparr>has_connection = True, initialized = True, db = (), calls = [], logs = []\<rparr>"

definition closed :: "unit manager" where
  "closed = \<lparr>has_connection = False, initialized = False, db = (), calls = [], logs = []\<rparr>"




section \<open>Properties\<close>

subsection \<open>The resultset loops agree with the scans of the specification\<close>

lemma to_frame_current:
  "to_frame \<lparr>current = Some r, pending = rest\<rparr> = Inr df \<longleftrightarrow> frame_of r = Some df"
  by (simp add: to_frame_def frame_of_def cursor_description_def fetchall_def
           split: option.splits sum.splits)

lemma to_frame_none:
  "frame_of r = None \<Longrightarrow> \<exists>e. to_frame \<lparr>current = Some r, pending = rest\<rparr> = Inl e"
  by (simp add: to_frame_def frame_of_def cursor_description_def fetchall_def
           split: option.splits sum.splits)

lemma skip_to_frame_scan:
  "skip_to_frame \<lparr>current = Some r, pending = rest\<rparr> =
     (case first_frame (Inr r # rest) of
        Found df \<Rightarrow> Inr (Some df)
      | Exhausted \<Rightarrow> Inr None
      | Raised e \<Rightarrow> Inl (DriverError e))"
proof (induction rest arbitrary: r)
  case Nil
  show ?case
  proof (cases "frame_of r")
    case None
    then obtain e where "to_frame \<lparr>current = Some r, pending = []\<rparr> = Inl e"
      using to_frame_none by blast
    with None show ?thesis
      by (subst skip_to_frame.simps) (simp add: nextset_def)
  next
    case (Some df)
    then have "to_frame \<lparr>current = Some r, pending = []\<rparr> = Inr df"
      by (simp add: to_frame_current)
    with Some show ?thesis
      by (subst skip_to_frame.simps) simp
  qed
next
  case (Cons x rest)
  show ?case
  proof (cases "frame_of r")
    case None
    then obtain e where e: "to_frame \<lparr>current = Some r, pending = x # rest\<rparr> = Inl e"
      using to_frame_none by blast
    show ?thesis
    proof (cases x)
      case (Inl err)
      with None e show ?thesis
        by (subst skip_to_frame.simps) (simp add: nextset_def)
    next
      case (Inr r')
      with None e Cons.IH [of r'] show ?thesis
        by (subst skip_to_frame.simps) (simp add: nextset_def)
    qed
  next
    case (Some df)
    then have "to_frame \<lparr>current = Some r, pending = x # rest\<rparr> = Inr df"
      by (simp add: to_frame_current)
    with Some show ?thesis
      by (subst skip_to_frame.simps) simp
  qed
qed



lemma call_procedure_no_cursor:
  assumes "has_connection m" and "new_cursor drv (db m) = Some e"
  shows "call_stored_procedure_with_select drv procedure_name params temp_table_name m =
     procedure_failed e (m\<lparr>calls := calls m @ [CursorOpen]\<rparr>)"
  using assms
  by (simp add: call_stored_procedure_with_select_def call_procedure_body_def open_cursor_def
        procedure_failed_def)

lemma call_procedure_exec_raises:
  assumes "has_connection m" and "new_cursor drv (db m) = None"
    and "bind_parameters params = (ph, ps)"
    and "exec drv (db m) (sql_query procedure_name ph temp_table_name) ps = (Inl e, d')"
  shows "call_stored_procedure_with_select drv procedure_name params temp_table_name m =
     procedure_failed e
       (m\<lparr>db := d', calls := calls m @ [CursorOpen, Execute (sql_query procedure_name ph temp_table_name) ps]\<rparr>)"
  using assms
  by (simp add: call_stored_procedure_with_select_def call_procedure_body_def open_cursor_def
        cursor_execute_def procedure_failed_def)

lemma call_procedure_executed:
  assumes "has_connection m" and "new_cursor drv (db m) = None"
    and "bind_parameters params = (ph, ps)"
    and "exec drv (db m) (sql_query procedure_name ph temp_table_name) ps = (Inr (r0, following), d')"
  shows "call_stored_procedure_with_select drv procedure_name params temp_table_name m =
     (let m2 = m\<lparr>db := d', calls := calls m @ [CursorOpen, Execute (sql_query procedure_name ph temp_table_name) ps]\<rparr>
      in case first_frame (Inr r0 # following) of
           Raised e \<Rightarrow> procedure_failed e m2
         | Exhausted \<Rightarrow>
             (Inr (Some empty_frame),
              log WARNING (Text ''No results returned from combined SP and select.'') m2)
         | Found df \<Rightarrow> (Inr (Some df), m2))"
proof (cases "first_frame (Inr r0 # following)")
  case (Found df)
  with assms show ?thesis
    by (simp add: call_stored_procedure_with_select_def call_procedure_body_def open_cursor_def
        cursor_execute_def skip_to_frame_scan del: first_frame.simps)
next
  case Exhausted
  with assms show ?thesis
    by (simp add: call_stored_procedure_with_select_def call_procedure_body_def open_cursor_def
        cursor_execute_def skip_to_frame_scan del: first_frame.simps)
next
  case (Raised e)
  with assms show ?thesis
    by (simp add: call_stored_procedure_with_select_def call_procedure_body_def open_cursor_def
        cursor_execute_def skip_to_frame_scan procedure_failed_def del: first_frame.simps)
qed








lemma execute_last_supplied:
  "execute_last drv batch params m =
     cursor_execute drv batch (case params of None \<Rightarrow> [] | Some ps \<Rightarrow> ps) m"
  by (simp add: execute_last_def split: option.splits)

lemma connected_fields:
  "has_connection connected" "calls connected = []" "db connected = ()"
  by (simp_all add: connected_def)


subsection \<open>RunScript returns the first described resultset of the final batch\<close>



lemma example_cursors:
  "new_cursor example_driver d = None" "new_cursor script_driver d = None"
  by (simp_all add: example_driver_def script_driver_def)



subsection \<open>CallProcedureWithSelect reports, never raises\<close>

text \<open>
  C2 (as amended). On a connected manager \<open>call_stored_procedure_with_select\<close> never
  raises. When obtaining the cursor, executing the batch or advancing to the next resultset
  fails, it returns \<open>None\<close> and appends one ERROR entry with the driver's message to the
  log. A resultset that cannot be read (no descriptor, rows that cannot be fetched or
  converted) is passed over without a log entry: when a later resultset converts, its
  frame is returned and the log is unchanged; when the resultsets are exhausted without one
  that converts, the empty frame is returned.
\<close>

theorem procedure_call_reports_failure:
  assumes "has_connection m"
  shows "(\<exists>r. fst (call_stored_procedure_with_select drv procedure_name params temp_table_name m) = Inr r)
   \<and> (\<forall>e. failing_step drv (sql_query procedure_name (fst (bind_parameters params)) temp_table_name)
              (snd (bind_parameters params)) (db m) = Some e \<longrightarrow>
          fst (call_stored_procedure_with_select drv procedure_name params temp_table_name m) = Inr None
          \<and> logs (snd (call_stored_procedure_with_select drv procedure_name params temp_table_name m))
              = logs m @ [(ERROR, Text (''Error calling stored procedure with select: '' @ e))])
   \<and> (\<forall>r0 following d'. new_cursor drv (db m) = None
          \<and> exec drv (db m) (sql_query procedure_name (fst (bind_parameters params)) temp_table_name)
                (snd (bind_parameters params)) = (Inr (r0, following), d')
          \<and> first_frame (Inr r0 # following) = Exhausted \<longrightarrow>
          fst (call_stored_procedure_with_select drv procedure_name params temp_table_name m)
            = Inr (Some empty_frame))
   \<and> (\<forall>r0 following d' df. new_cursor drv (db m) = None
          \<and> exec drv (db m) (sql_query procedure_name (fst (bind_parameters params)) temp_table_name)
                (snd (bind_parameters params)) = (Inr (r0, following), d')
          \<and> first_frame (Inr r0 # following) = Found df \<longrightarrow>
          fst (call_stored_procedure_with_select drv procedure_name params temp_table_name m)
            = Inr (Some df)
          \<and> logs (snd (call_stored_procedure_with_select drv procedure_name params temp_table_name m))
              = logs m)"
proof -
  let ?call = "call_stored_procedure_with_select drv procedure_name params temp_table_name m"
  obtain ph ps where b: "bind_parameters params = (ph, ps)" by (cases "bind_parameters params")
  let ?sql = "sql_query procedure_name ph temp_table_name"
  obtain r d' where ex: "exec drv (db m) ?sql ps = (r, d')" by (cases "exec drv (db m) ?sql ps")
  show ?thesis
  proof (cases "new_cursor drv (db m)")
    case (Some e)
    with assms b show ?thesis
      by (simp add: call_procedure_no_cursor procedure_failed_def log_def failing_step_def)
  next
    case None
    show ?thesis
    proof (cases r)
      case (Inl e)
      with assms b ex None show ?thesis
        by (simp add: call_procedure_exec_raises procedure_failed_def log_def failing_step_def)
    next
      case (Inr p)
      then obtain r0 following where r: "r = Inr (r0, following)" by (cases p) simp
      have char: "?call =
         (let m2 = m\<lparr>db := d', calls := calls m @ [CursorOpen, Execute ?sql ps]\<rparr>
          in case first_frame (Inr r0 # following) of
               Raised e \<Rightarrow> procedure_failed e m2
             | Exhausted \<Rightarrow>
                 (Inr (Some empty_frame),
                  log WARNING (Text ''No results returned from combined SP and select.'') m2)
             | Found df \<Rightarrow> (Inr (Some df), m2))"
        using assms None b ex r by (intro call_procedure_executed) simp_all
      show ?thesis
      proof (cases "first_frame (Inr r0 # following)")
        case (Found df)
        with char b ex r None show ?thesis
          by (simp add: failing_step_def del: first_frame.simps)
      next
        case Exhausted
        with char b ex r None show ?thesis
          by (simp add: failing_step_def del: first_frame.simps)
      next
        case (Raised e)
        with char b ex r None show ?thesis
          by (simp add: failing_step_def procedure_failed_def log_def del: first_frame.simps)
      qed
    qed
  qed
qed

lemma procedure_steps:
  "failing_step example_driver (sql_query ''raises'' (fst (bind_parameters (ParamOther PyNone))) ''#tmp'')
     (snd (bind_parameters (ParamOther PyNone))) (db connected) = Some ''boom''"
  "exec example_driver (db connected)
     (sql_query ''no_output'' (fst (bind_parameters (ParamOther PyNone))) ''#tmp'')
     (snd (bind_parameters (ParamOther PyNone)))
     = (Inr (ResultSet None no_rows, [Inr (ResultSet None no_rows)]), ())"
  "first_frame [Inr (ResultSet None no_rows), Inr (ResultSet None no_rows)] = Exhausted"
  "exec script_driver (db connected)
     (sql_query ''flaky'' (fst (bind_parameters (ParamOther PyNone))) ''#tmp'')
     (snd (bind_parameters (ParamOther PyNone)))
     = (Inr (ResultSet (Some [''a'']) (Inl ''conversion failed''),
             [Inr (ResultSet (Some [''v'']) (Inr [[PyInt 1]]))]), ())"
  "first_frame [Inr (ResultSet (Some [''a'']) (Inl ''conversion failed'')),
                Inr (ResultSet (Some [''v'']) (Inr [[PyInt 1]]))]
     = Found (DataFrame [''v''] [[PyInt 1]])"
  by code_simp+

theorem procedure_call_reports_failure_witness:
  "has_connection connected
   \<and> fst (call_stored_procedure_with_select example_driver ''raises'' (ParamOther PyNone) ''#tmp'' connected)
       = Inr None
   \<and> logs (snd (call_stored_procedure_with_select example_driver ''raises'' (ParamOther PyNone) ''#tmp''
         connected))
       = [(ERROR, Text ''Error calling stored procedure with select: boom'')]
   \<and> fst (call_stored_procedure_with_select example_driver ''no_output'' (ParamOther PyNone) ''#tmp''
         connected) = Inr (Some empty_frame)
   \<and> fst (call_stored_procedure_with_select script_driver ''flaky'' (ParamOther PyNone) ''#tmp''
         connected) = Inr (Some (DataFrame [''v''] [[PyInt 1]]))
   \<and> logs (snd (call_stored_procedure_with_select script_driver ''flaky'' (ParamOther PyNone) ''#tmp''
         connected)) = []"
proof -
  note t1 = procedure_call_reports_failure [where m = connected and drv = example_driver
      and procedure_name = "''raises''" and params = "ParamOther PyNone" and temp_table_name = "''#tmp''",
      OF connected_fields(1)]
  note t2 = procedure_call_reports_failure [where m = connected and drv = example_driver
      and procedure_name = "''no_output''" and params = "ParamOther PyNone" and temp_table_name = "''#tmp''",
      OF connected_fields(1)]
  note t3 = procedure_call_reports_failure [where m = connected and drv = script_driver
      and procedure_name = "''flaky''" and params = "ParamOther PyNone" and temp_table_name = "''#tmp''",
      OF connected_fields(1)]
  have a: "fst (call_stored_procedure_with_select example_driver ''raises'' (ParamOther PyNone) ''#tmp''
             connected) = Inr None
      \<and> logs (snd (call_stored_procedure_with_select example_driver ''raises'' (ParamOther PyNone)
             ''#tmp'' connected))
         = logs connected @ [(ERROR, Text (''Error calling stored procedure with select: '' @ ''boom''))]"
    using t1 procedure_steps(1) by blast
  have b: "fst (call_stored_procedure_with_select example_driver ''no_output'' (ParamOther PyNone) ''#tmp''
             connected) = Inr (Some empty_frame)"
    using t2 procedure_steps(2,3) example_cursors(1) by blast
  have c: "fst (call_stored_procedure_with_select script_driver ''flaky'' (ParamOther PyNone) ''#tmp''
             connected) = Inr (Some (DataFrame [''v''] [[PyInt 1]]))
      \<and> logs (snd (call_stored_procedure_with_select script_driver ''flaky'' (ParamOther PyNone)
             ''#tmp'' connected)) = logs connected"
    using t3 procedure_steps(4,5) example_cursors(2) by blast
  from a b c show ?thesis
    by (simp add: connected_def)
qed

text \<open>
  C2 as stated fails. The first resultset of the batch has a descriptor and its \<open>fetchall\<close>
  raises, a step of the execution that fails; the inner \<open>except\<close> passes over it, the next
  resultset converts, and the call returns that frame and logs nothing.
\<close>

theorem fetch_failure_not_reported_counterexample:
  "has_connection connected
   \<and> exec script_driver (db connected) (sql_query ''flaky'' [] ''#tmp'') []
       = (Inr (ResultSet (Some [''a'']) (Inl ''conversion failed''),
               [Inr (ResultSet (Some [''v'']) (Inr [[PyInt 1]]))]), ())
   \<and> fetchall \<lparr>current = Some (ResultSet (Some [''a'']) (Inl ''conversion failed'')),
                pending = [Inr (ResultSet (Some [''v'']) (Inr [[PyInt 1]]))]\<rparr>
       = Inl ''conversion failed''
   \<and> fst (call_stored_procedure_with_select script_driver ''flaky'' (ParamOther PyNone) ''#tmp''
         connected) = Inr (Some (DataFrame [''v''] [[PyInt 1]]))
   \<and> logs (snd (call_stored_procedure_with_select script_driver ''flaky'' (ParamOther PyNone) ''#tmp''
         connected)) = []"
  by code_simp

lemma procedure_call_examples:
  "fst (call_stored_procedure_with_select example_driver ''fill_tmp'' (ParamList [PyInt 9]) ''#tmp'' connected)
     = Inr (Some (DataFrame [''v''] [[PyInt 9]]))"
  "fst (call_stored_procedure_with_select example_driver ''no_output'' (ParamOther PyNone) ''#tmp'' connected)
     = Inr (Some empty_frame)"
  by code_simp+

subsection \<open>Parameter binding in CallProcedureWithSelect\<close>

lemma named_placeholders:
  "map (\<lambda>(key, v). f key) kvs = map f (map fst kvs)"
  by (induction kvs) auto

text \<open>
  C5 (as amended). On a connected manager whose cursor is obtained,
  \<open>call_stored_procedure_with_select\<close> sends one batch to the driver: for a dict, the
  \<open>EXEC\<close> with one named placeholder \<open>@key = ?\<close> for each key and the dict's values
  bound; for a list, one positional placeholder \<open>?\<close> for each element and the elements
  bound; for any other value, a tuple included, no placeholder and no value.
\<close>

theorem procedure_call_binds_parameters:
  assumes "has_connection m" and "new_cursor drv (db m) = None"
  shows "calls (snd (call_stored_procedure_with_select drv procedure_name params temp_table_name m)) =
     calls m @ [CursorOpen,
       (case params of
          ParamDict kvs \<Rightarrow>
            Execute (sql_query procedure_name
                       (join '', '' (map (\<lambda>(key, v). ''@'' @ key @ '' = ?'') kvs)) temp_table_name)
                    (map snd kvs)
        | ParamList xs \<Rightarrow>
            Execute (sql_query procedure_name (join '', '' (map (\<lambda>v. ''?'') xs)) temp_table_name) xs
        | ParamTuple xs \<Rightarrow> Execute (sql_query procedure_name [] temp_table_name) []
        | ParamOther v \<Rightarrow> Execute (sql_query procedure_name [] temp_table_name) [])]"
proof -
  obtain ph ps where b: "bind_parameters params = (ph, ps)" by (cases "bind_parameters params")
  let ?sql = "sql_query procedure_name ph temp_table_name"
  have c: "calls (snd (call_stored_procedure_with_select drv procedure_name params temp_table_name m)) =
     calls m @ [CursorOpen, Execute ?sql ps]"
  proof (cases "exec drv (db m) ?sql ps")
    case (Pair r d')
    show ?thesis
    proof (cases r)
      case (Inl e)
      with assms b Pair show ?thesis
        by (simp add: call_procedure_exec_raises procedure_failed_def log_def)
    next
      case (Inr p)
      then obtain r0 following where "r = Inr (r0, following)" by (cases p) simp
      with assms b Pair show ?thesis
        by (simp add: call_procedure_executed procedure_failed_def log_def Let_def
              split: scan.splits del: first_frame.simps)
    qed
  qed
  show ?thesis
    using b c by (cases params) (simp_all add: named_placeholders map_replicate_const)
qed

theorem procedure_call_binds_parameters_witness:
  "has_connection connected \<and> new_cursor example_driver (db connected) = None
   \<and> calls (snd (call_stored_procedure_with_select example_driver ''p''
        (ParamDict [(''site'', PyInt 3), (''day'', PyStr ''mon'')]) ''#t'' connected))
     = [CursorOpen, Execute (sql_query ''p'' ''@site = ?, @day = ?'' ''#t'') [PyInt 3, PyStr ''mon'']]
   \<and> calls (snd (call_stored_procedure_with_select example_driver ''p''
        (ParamList [PyInt 3, PyInt 4]) ''#t'' connected))
     = [CursorOpen, Execute (sql_query ''p'' ''?, ?'' ''#t'') [PyInt 3, PyInt 4]]
   \<and> calls (snd (call_stored_procedure_with_select example_driver ''p''
        (ParamTuple [PyInt 3, PyInt 4]) ''#t'' connected))
     = [CursorOpen, Execute (sql_query ''p'' [] ''#t'') []]"
  using procedure_call_binds_parameters [where m = connected and drv = example_driver
      and procedure_name = "''p''" and temp_table_name = "''#t''"
      and params = "ParamDict [(''site'', PyInt 3), (''day'', PyStr ''mon'')]"]
    procedure_call_binds_parameters [where m = connected and drv = example_driver
      and procedure_name = "''p''" and temp_table_name = "''#t''"
      and params = "ParamList [PyInt 3, PyInt 4]"]
    procedure_call_binds_parameters [where m = connected and drv = example_driver
      and procedure_name = "''p''" and temp_table_name = "''#t''"
      and params = "ParamTuple [PyInt 3, PyInt 4]"]
  by (simp add: connected_def example_driver_def)

text \<open>
  C5 as stated fails. A tuple is not a list: where the specification has positional placeholders for every
  ordered sequence, the code binds nothing for a tuple.
\<close>

theorem tuple_binds_nothing_counterexample:
  "bind_parameters (ParamTuple [PyInt 7]) = ([], [])
   \<and> spec_bind_parameters (ParamTuple [PyInt 7]) = (''?'', [PyInt 7])
   \<and> calls (snd (call_stored_procedure_with_select example_driver ''p'' (ParamTuple [PyInt 7]) ''#t''
        connected)) = [CursorOpen, Execute (sql_query ''p'' [] ''#t'') []]"
  by code_simp

subsection \<open>CallProcedureWithSelect without a connection\<close>

text \<open>
  C8. When no connection is held, \<open>call_stored_procedure_with_select\<close> raises
  \<open>DatabaseConnectionError\<close> and leaves the manager as it was; it does not return \<open>None\<close>, so
  the lenient path starts only after the connection check.
\<close>

theorem not_connected_raises:
  "\<not> has_connection m \<Longrightarrow>
   call_stored_procedure_with_select drv procedure_name params temp_table_name m =
     (Inl (DatabaseConnectionError ''Database connection not established'' None), m)
   \<and> fst (call_stored_procedure_with_select drv procedure_name params temp_table_name m) \<noteq> Inr None"
  by (simp add: call_stored_procedure_with_select_def not_established_def)

theorem not_connected_raises_witness:
  "\<not> has_connection closed \<and>
   call_stored_procedure_with_select example_driver ''fill_tmp'' (ParamList [PyInt 1]) ''#tmp'' closed =
     (Inl (DatabaseConnectionError ''Database connection not established'' None), closed)"
  using not_connected_raises [of closed example_driver "''fill_tmp''" "ParamList [PyInt 1]" "''#tmp''"]
  by (simp add: closed_def)

subsection \<open>The comparison colouring\<close>

lemma colours_distinct: "red \<noteq> green" "red \<noteq> yellow" "green \<noteq> yellow"
  by (simp_all add: red_def green_def yellow_def)

text \<open>
  C7. For every joined row, after the absent quantities are filled with zero,
  \<open>highlight_qty\<close> colours the row red when both quantities are zero or either side was
  absent (an absent side is a zero quantity once filled, and red is the colour of every row
  with a zero quantity), green when the two quantities are equal and not zero, and yellow
  otherwise. The witness has the four rows of the specification: 5 and 5 green, 5 and 0
  red, 5 and 3 yellow, absent and 5 red.
\<close>

theorem comparison_colouring:
  fixes r :: "('q::zero) comparison_row"
  shows "highlight_qty (fill_quantities r) =
     replicate 4
       (if filled (ForecastedOrderQty r) = 0 \<or> filled (OrderedQty r) = 0 then red
        else if filled (ForecastedOrderQty r) = filled (OrderedQty r) then green
        else yellow)
   \<and> (ForecastedOrderQty r = None \<or> OrderedQty r = None
        \<longrightarrow> highlight_qty (fill_quantities r) = replicate 4 red)
   \<and> (filled (ForecastedOrderQty r) = 0 \<and> filled (OrderedQty r) = 0
        \<longrightarrow> highlight_qty (fill_quantities r) = replicate 4 red)
   \<and> (filled (ForecastedOrderQty r) = filled (OrderedQty r) \<and> filled (ForecastedOrderQty r) \<noteq> 0
        \<longrightarrow> highlight_qty (fill_quantities r) = replicate 4 green)
   \<and> (filled (ForecastedOrderQty r) \<noteq> filled (OrderedQty r)
        \<and> filled (ForecastedOrderQty r) \<noteq> 0 \<and> filled (OrderedQty r) \<noteq> 0
        \<longrightarrow> highlight_qty (fill_quantities r) = replicate 4 yellow)"
  by (simp add: highlight_qty_def fill_quantities_def fillna0_def cell_eq_def filled_def row_len_def
           split: option.splits)

theorem comparison_colouring_witness:
  "highlight_qty (fill_quantities \<lparr>ProductName = Some ''A'', NDC = ''1'',
       ForecastedOrderQty = Some (5::int), OrderedQty = Some 5\<rparr>) = replicate 4 green
   \<and> highlight_qty (fill_quantities \<lparr>ProductName = Some ''A'', NDC = ''1'',
       ForecastedOrderQty = Some (5::int), OrderedQty = Some 0\<rparr>) = replicate 4 red
   \<and> highlight_qty (fill_quantities \<lparr>ProductName = Some ''A'', NDC = ''1'',
       ForecastedOrderQty = Some (5::int), OrderedQty = Some 3\<rparr>) = replicate 4 yellow
   \<and> highlight_qty (fill_quantities \<lparr>ProductName = None, NDC = ''1'',
       ForecastedOrderQty = None, OrderedQty = Some (5::int)\<rparr>) = replicate 4 red
   \<and> highlight_qty (fill_quantities \<lparr>ProductName = None, NDC = ''1'',
       ForecastedOrderQty = Some (0::int), OrderedQty = Some 0\<rparr>) = replicate 4 red"
  using comparison_colouring [of "\<lparr>ProductName = Some ''A'', NDC = ''1'',
       ForecastedOrderQty = Some (5::int), OrderedQty = Some 5\<rparr>"]
    comparison_colouring [of "\<lparr>ProductName = Some ''A'', NDC = ''1'',
       ForecastedOrderQty = Some (5::int), OrderedQty = Some 0\<rparr>"]
    comparison_colouring [of "\<lparr>ProductName = Some ''A'', NDC = ''1'',
       ForecastedOrderQty = Some (5::int), OrderedQty = Some 3\<rparr>"]
    comparison_colouring [of "\<lparr>ProductName = None, NDC = ''1'',
       ForecastedOrderQty = None, OrderedQty = Some (5::int)\<rparr>"]
    comparison_colouring [of "\<lparr>ProductName = None, NDC = ''1'',
       ForecastedOrderQty = Some (0::int), OrderedQty = Some 0\<rparr>"]
  by (simp add: filled_def)

subsection \<open>The access token attribute\<close>

lemma expand_token_interleave: "expand_token acc bs = acc @ interleave_zero bs"
  by (induction bs arbitrary: acc) (simp_all add: interleave_zero_def)

lemma length_interleave_zero: "length (interleave_zero bs) = 2 * length bs"
  by (induction bs) (simp_all add: interleave_zero_def)

lemma le_bytes_4:
  "le_bytes 4 n = [of_nat (n mod 256), of_nat (n div 256 mod 256),
                   of_nat (n div 256 div 256 mod 256), of_nat (n div 256 div 256 div 256 mod 256)]"
proof -
  have "(4::nat) = Suc (Suc (Suc (Suc 0)))" by simp
  then show ?thesis by (simp only: le_bytes.simps)
qed

lemma struct_pack_little_endian:
  assumes "n < 2 ^ 31"
  shows "struct_pack_i LittleEndian (int n) = Inr (le_bytes 4 n)"
proof -
  have small: "int n mod 2 ^ 32 = int n"
    using assms by simp
  have range: "- (2 ^ 31) \<le> int n \<and> int n < 2 ^ 31"
    using assms by simp
  have conv: "(word_of_int (int k) :: byte) = of_nat k" for k
    by simp
  have "int n mod 256 = int (n mod 256)"
    by (simp add: zmod_int)
  then have b0: "(word_of_int (int n mod 256) :: byte) = of_nat (n mod 256)"
    by (simp only: conv)
  have "int n div 256 mod 256 = int (n div 256 mod 256)"
    by (simp add: zmod_int zdiv_int)
  then have b1: "(word_of_int (int n div 256 mod 256) :: byte) = of_nat (n div 256 mod 256)"
    by (simp only: conv)
  have "n div 65536 = n div 256 div 256"
    by (simp add: div_mult2_eq [symmetric])
  moreover have "int n div 65536 mod 256 = int (n div 65536 mod 256)"
    by (simp add: zmod_int zdiv_int)
  ultimately have "int n div 65536 mod 256 = int (n div 256 div 256 mod 256)"
    by (simp only:)
  then have b2: "(word_of_int (int n div 65536 mod 256) :: byte) = of_nat (n div 256 div 256 mod 256)"
    by (simp only: conv)
  have "n div 16777216 = n div 256 div 256 div 256"
    by (simp add: div_mult2_eq [symmetric])
  moreover have "int n div 16777216 mod 256 = int (n div 16777216 mod 256)"
    by (simp add: zmod_int zdiv_int)
  ultimately have "int n div 16777216 mod 256 = int (n div 256 div 256 div 256 mod 256)"
    by (simp only:)
  then have b3: "(word_of_int (int n div 16777216 mod 256) :: byte)
                   = of_nat (n div 256 div 256 div 256 mod 256)"
    by (simp only: conv)
  show ?thesis
    unfolding struct_pack_i_def le_bytes_4 using range
    by (simp only: small b0 b1 b2 b3 Let_def byteorder.case simp_thms if_True)
qed

lemma byte_value: "unat (of_nat (k mod 256) :: byte) = k mod 256"
  by (simp add: unat_of_nat)

lemma le_value_le_bytes:
  assumes "n < 2 ^ 32"
  shows "le_value (le_bytes 4 n) = n"
proof -
  have "n div 256 div 256 div 256 < 256"
    using assms by simp
  then have top: "n div 256 div 256 div 256 mod 256 = n div 256 div 256 div 256"
    by simp
  have "le_value (le_bytes 4 n) =
          n mod 256 + 256 * (n div 256 mod 256 + 256 * (n div 256 div 256 mod 256
            + 256 * (n div 256 div 256 div 256 mod 256)))"
    unfolding le_bytes_4 by (simp only: le_value.simps byte_value) simp
  also have "\<dots> = n"
    unfolding top by (simp only: mult_div_mod_eq mod_mult_div_eq)
  finally show ?thesis .
qed

lemma local_run_construct:
  assumes "length (utf8 token) < 2 ^ 30"
  shows "construct drv LittleEndian (Inr token) server database drivername ''LOCAL'' d =
     do_connect drv (connection_string server database drivername)
       [(1256, le_bytes 4 (length (interleave_zero (utf8 token))) @ interleave_zero (utf8 token))]
       (log INFO (Text ''Connection Using SQL_COPT_SS_ACCESS_Token'')
          (log INFO (Text (''Initializing connection with server='' @ server @ '', database=''
                  @ database @ '', driver='' @ drivername @ '', localRun=LOCAL''))
             \<lparr>has_connection = False, initialized = True, db = d, calls = [], logs = []\<rparr>))"
proof -
  have "length (interleave_zero (utf8 token)) < 2 ^ 31"
    using assms by (simp add: length_interleave_zero)
  then have "struct_pack_i LittleEndian (int (length (interleave_zero (utf8 token))))
                = Inr (le_bytes 4 (length (interleave_zero (utf8 token))))"
    by (rule struct_pack_little_endian)
  then show ?thesis
    by (simp add: construct_def setup_connection_def expand_token_interleave
          SQL_COPT_SS_ACCESS_TOKEN_def Let_def)
qed

lemma do_connect_calls:
  "calls (snd (do_connect drv cs attrs m)) = calls m @ [Connect cs attrs]"
  by (simp add: do_connect_def setup_failed_def log_def Let_def split: option.splits)

text \<open>
  C4. On a local run (\<open>localRun = 'LOCAL'\<close>) with a token whose UTF-8 encoding is
  shorter than \<open>2^30\<close> bytes, on a little-endian host, \<open>_setup_connection\<close> makes one call
  to the driver: \<open>connect\<close> with the plain connection string and the one pre-connection
  attribute 1256, whose value is the length of the expanded token as four little-endian
  bytes followed by the expanded token, which is every UTF-8 byte of the token followed by
  a zero byte. The four bytes decode to that length.
\<close>

theorem local_run_attaches_token:
  assumes "length (utf8 token) < 2 ^ 30"
  shows "calls (snd (construct drv LittleEndian (Inr token) server database drivername ''LOCAL'' d)) =
       [Connect (connection_string server database drivername)
          [(1256, le_bytes 4 (length (interleave_zero (utf8 token))) @ interleave_zero (utf8 token))]]
   \<and> le_value (le_bytes 4 (length (interleave_zero (utf8 token))))
       = length (interleave_zero (utf8 token))"
proof -
  have "length (interleave_zero (utf8 token)) < 2 ^ 32"
    using assms by (simp add: length_interleave_zero)
  then have "le_value (le_bytes 4 (length (interleave_zero (utf8 token))))
       = length (interleave_zero (utf8 token))"
    by (rule le_value_le_bytes)
  moreover have "calls (snd (construct drv LittleEndian (Inr token) server database drivername ''LOCAL'' d)) =
       [Connect (connection_string server database drivername)
          [(1256, le_bytes 4 (length (interleave_zero (utf8 token))) @ interleave_zero (utf8 token))]]"
    by (simp add: local_run_construct [OF assms] do_connect_calls log_def)
  ultimately show ?thesis by simp
qed

lemma token_bytes_examples:
  "length (utf8 ''ab'') = 2"
  "le_bytes 4 (length (interleave_zero (utf8 ''ab''))) @ interleave_zero (utf8 ''ab'')
     = [4, 0, 0, 0, 97, 0, 98, 0]"
  "utf8 [CHR 0xE9] = [195, 169]"
  "struct_pack_i BigEndian 4 = Inr [0, 0, 0, 4]"
  by (simp_all add: interleave_zero_def utf8_def utf8_char_def le_bytes_4 struct_pack_i_def)

theorem local_run_attaches_token_witness:
  "length (utf8 ''ab'') < 2 ^ 30
   \<and> calls (snd (construct example_driver LittleEndian (Inr ''ab'') ''srv'' ''dbname'' ''drv'' ''LOCAL'' ()))
      = [Connect ''DRIVER=drv;SERVER=srv;DATABASE=dbname'' [(1256, [4, 0, 0, 0, 97, 0, 98, 0])]]"
  using local_run_attaches_token [where token = "''ab''" and drv = example_driver and server = "''srv''"
      and database = "''dbname''" and drivername = "''drv''" and d = "()"]
  by (simp add: token_bytes_examples connection_string_def)

lemma platform_run_no_attribute:
  "localRun \<noteq> ''LOCAL'' \<Longrightarrow>
   calls (snd (construct drv native (Inr token) server database drivername localRun d)) =
     [Connect (connection_string server database drivername @ '';Authentication=ActiveDirectoryMsi'') []]"
  by (simp add: construct_def setup_connection_def do_connect_calls log_def Let_def)


subsection \<open>RunScript on a script with no batch\<close>

lemma split_from_pieces:
  "p \<in> set (split_from sep acc s) \<Longrightarrow> set p \<subseteq> set acc \<union> set s"
proof (induction sep acc s arbitrary: p rule: split_from.induct)
  case (1 sep acc)
  then show ?case by simp
next
  case (2 sep acc c cs)
  show ?case
  proof (cases "sep \<noteq> [] \<and> starts_with sep (c # cs)")
    case True
    with "2.prems" have "p = rev acc \<or> p \<in> set (split_from sep [] (drop (length sep) (c # cs)))"
      by simp
    then show ?thesis
    proof
      assume "p = rev acc"
      then show ?thesis by auto
    next
      assume "p \<in> set (split_from sep [] (drop (length sep) (c # cs)))"
      with True "2.IH"(1) have "set p \<subseteq> set [] \<union> set (drop (length sep) (c # cs))"
        by blast
      moreover have "set (drop (length sep) (c # cs)) \<subseteq> set (c # cs)"
        by (rule set_drop_subset)
      ultimately show ?thesis by auto
    qed
  next
    case False
    with "2.prems" have "p \<in> set (split_from sep (c # acc) cs)"
      by auto
    with False "2.IH"(2) have "set p \<subseteq> set (c # acc) \<union> set cs"
      by blast
    then show ?thesis by auto
  qed
qed

lemma strip_whitespace: "list_all is_space s \<Longrightarrow> strip s = []"
proof -
  assume a: "list_all is_space s"
  then have "\<forall>x\<in>set (rev s). is_space x"
    by (simp add: list_all_iff)
  then have "dropWhile is_space (rev s) = []"
    by (simp only: dropWhile_eq_Nil_conv)
  then have "strip s = dropWhile is_space (rev [])"
    by (simp only: strip_def)
  then show ?thesis by simp
qed

lemma whitespace_script_no_batches:
  assumes "list_all is_space script"
  shows "batches_of script = []"
proof -
  have "strip p = []" if "p \<in> set (split script sep)" for p sep
  proof -
    from that have "set p \<subseteq> set script"
      using split_from_pieces [of p sep "[]" script] by (simp add: split_def)
    with assms have "list_all is_space p"
      by (auto simp: list_all_iff)
    then show ?thesis by (rule strip_whitespace)
  qed
  then show ?thesis
    by (simp add: batches_of_def filter_empty_conv)
qed

text \<open>
  C9. On a connected manager whose cursor is obtained, a script with no non-empty batch
  (an empty or whitespace-only script among them) makes
  \<open>run_script_and_get_last_result\<close> raise \<open>IndexError\<close> at \<open>batches[-1]\<close>: not a
  \<open>DatabaseConnectionError\<close>, not an empty frame. The driver sees the cursor opened and
  closed and no statement.
\<close>

theorem empty_script_index_error:
  assumes "has_connection m" and "new_cursor drv (db m) = None"
    and "batches_of script = []"
  shows "run_script_and_get_last_result drv script params m =
           (Inl IndexError, m\<lparr>calls := calls m @ [CursorOpen, CursorClose]\<rparr>)
         \<and> \<not> is_connection_error IndexError"
  using assms
  by (simp add: run_script_and_get_last_result_def open_cursor_def run_script_body_def
        close_cursor_def is_connection_error_def)

lemma blank_scripts:
  "batches_of [] = []"
  "batches_of ('' '' @ [newline] @ ''  '') = []"
  "batches_of (newline # ''GO'' @ [newline]) = []"
  by code_simp+

theorem empty_script_index_error_witness:
  "has_connection connected \<and> new_cursor example_driver (db connected) = None
   \<and> batches_of ('' '' @ [newline] @ ''  '') = []
   \<and> run_script_and_get_last_result example_driver ('' '' @ [newline] @ ''  '') (Some [PyInt 1]) connected
       = (Inl IndexError, connected\<lparr>calls := [CursorOpen, CursorClose]\<rparr>)"
  using empty_script_index_error [where m = connected and drv = example_driver
      and script = "'' '' @ [newline] @ ''  ''" and params = "Some [PyInt 1]"]
    blank_scripts(2)
  by (simp add: connected_def example_driver_def)


subsection \<open>The calls each operation makes on the driver\<close>

lemma open_cursor_calls: "calls (snd (open_cursor drv m)) = calls m @ [CursorOpen]"
  by (simp add: open_cursor_def Let_def split: option.splits)

lemma cursor_execute_calls:
  "calls (snd (cursor_execute drv sql ps m)) = calls m @ [Execute sql ps]"
  by (simp add: cursor_execute_def Let_def split: prod.splits sum.splits)

lemma cursor_execute_result:
  "cursor_execute drv sql ps m = (r, m') \<Longrightarrow> calls m' = calls m @ [Execute sql ps]"
  using cursor_execute_calls [of drv sql ps m] by simp

lemma run_leading_executes:
  "\<exists>ext. calls (snd (run_leading drv bs m)) = calls m @ ext \<and> list_all is_execute ext"
proof (induction bs arbitrary: m)
  case Nil
  show ?case by simp
next
  case (Cons b bs)
  obtain r m1 where ex: "cursor_execute drv b [] m = (r, m1)"
    by (cases "cursor_execute drv b [] m")
  then have c1: "calls m1 = calls m @ [Execute b []]"
    by (rule cursor_execute_result)
  show ?case
  proof (cases r)
    case (Inl e)
    with ex c1 show ?thesis by simp
  next
    case (Inr c)
    show ?thesis
    proof (cases "drain c")
      case (Some e)
      with ex c1 Inr show ?thesis by simp
    next
      case None
      obtain ext where "calls (snd (run_leading drv bs m1)) = calls m1 @ ext" "list_all is_execute ext"
        using Cons.IH by blast
      with ex c1 Inr None show ?thesis by simp
    qed
  qed
qed

lemma run_leading_error:
  "run_leading drv bs m = (Some e, m') \<Longrightarrow> \<exists>s. e = DriverError s"
  by (induction bs arbitrary: m) (auto split: prod.splits sum.splits option.splits)

lemma execute_statements_executes:
  "\<exists>ext. calls (snd (execute_statements drv ss m)) = calls m @ ext \<and> list_all is_execute ext"
proof (induction ss arbitrary: m)
  case Nil
  show ?case by simp
next
  case (Cons s ss)
  show ?case
  proof (cases "strip s \<noteq> []")
    case False
    with Cons.IH [of m] show ?thesis by simp
  next
    case True
    obtain r m1 where ex: "cursor_execute drv s [] m = (r, m1)"
      by (cases "cursor_execute drv s [] m")
    then have c1: "calls m1 = calls m @ [Execute s []]"
      by (rule cursor_execute_result)
    show ?thesis
    proof (cases r)
      case (Inl e)
      with True ex c1 show ?thesis by simp
    next
      case (Inr c)
      obtain ext where "calls (snd (execute_statements drv ss m1)) = calls m1 @ ext"
        "list_all is_execute ext"
        using Cons.IH by blast
      with True ex c1 Inr show ?thesis by simp
    qed
  qed
qed

lemma execute_statements_error:
  "execute_statements drv ss m = (Some e, m') \<Longrightarrow> \<exists>s. e = DriverError s"
  by (induction ss arbitrary: m) (auto split: prod.splits sum.splits if_splits)

lemma execute_statements_all:
  "execute_statements drv ss m = (None, m') \<Longrightarrow>
   calls m' = calls m @ map (\<lambda>s. Execute s []) (filter (\<lambda>s. strip s \<noteq> []) ss)"
proof (induction ss arbitrary: m)
  case Nil
  then show ?case by simp
next
  case (Cons s ss)
  show ?case
  proof (cases "strip s \<noteq> []")
    case False
    with Cons show ?thesis by simp
  next
    case True
    obtain r m1 where ex: "cursor_execute drv s [] m = (r, m1)"
      by (cases "cursor_execute drv s [] m")
    then have c1: "calls m1 = calls m @ [Execute s []]"
      by (rule cursor_execute_result)
    from Cons.prems True ex obtain c where "r = Inr c" and "execute_statements drv ss m1 = (None, m')"
      by (cases r) auto
    with Cons.IH [of m1] c1 True show ?thesis by simp
  qed
qed

lemma count_executes:
  "list_all is_execute ext \<Longrightarrow> \<not> is_execute c \<Longrightarrow> count_list ext c = 0"
  by (induction ext) auto


lemma run_script_body_executes:
  "\<exists>ext. calls (snd (run_script_body drv bs params m)) = calls m @ ext \<and> list_all is_execute ext"
proof -
  obtain o1 m1 where lead: "run_leading drv (butlast bs) m = (o1, m1)"
    by (cases "run_leading drv (butlast bs) m")
  obtain ext1 where e1: "calls m1 = calls m @ ext1" "list_all is_execute ext1"
    using run_leading_executes [of drv "butlast bs" m] lead by auto
  show ?thesis
  proof (cases "o1 = None \<and> bs \<noteq> []")
    case False
    with lead e1 show ?thesis
      by (cases o1) (auto simp: run_script_body_def)
  next
    case True
    let ?ps = "case params of None \<Rightarrow> [] | Some ps \<Rightarrow> ps"
    obtain r m2 where ex: "cursor_execute drv (last bs) ?ps m1 = (r, m2)"
      by (cases "cursor_execute drv (last bs) ?ps m1")
    then have c2: "calls m2 = calls m1 @ [Execute (last bs) ?ps]"
      by (rule cursor_execute_result)
    have "snd (run_script_body drv bs params m) = m2"
      using True lead ex
      by (simp add: run_script_body_def execute_last_supplied split: sum.splits)
    with e1 c2 show ?thesis by simp
  qed
qed

lemma fetch_result_error:
  "fetch_result c = Inl e \<Longrightarrow> \<not> is_connection_error e"
  by (auto simp: fetch_result_def from_records_def is_connection_error_def Let_def
        split: sum.splits option.splits if_splits)

lemma run_script_body_error:
  "fst (run_script_body drv bs params m) = Inl e \<Longrightarrow> \<not> is_connection_error e"
proof -
  assume a: "fst (run_script_body drv bs params m) = Inl e"
  obtain o1 m1 where lead: "run_leading drv (butlast bs) m = (o1, m1)"
    by (cases "run_leading drv (butlast bs) m")
  show ?thesis
  proof (cases o1)
    case (Some e1)
    with lead obtain s where "e1 = DriverError s"
      using run_leading_error by blast
    with a lead Some show ?thesis
      by (auto simp: run_script_body_def is_connection_error_def)
  next
    case None
    show ?thesis
    proof (cases "bs = []")
      case True
      with a lead None show ?thesis
        by (auto simp: run_script_body_def is_connection_error_def)
    next
      case False
      obtain r m2 where ex: "execute_last drv (last bs) params m1 = (r, m2)"
        by (cases "execute_last drv (last bs) params m1")
      show ?thesis
      proof (cases r)
        case (Inl s)
        with a lead None False ex show ?thesis
          by (auto simp: run_script_body_def is_connection_error_def)
      next
        case (Inr c)
        with a lead None False ex have "fetch_result c = Inl e"
          by (simp add: run_script_body_def)
        then show ?thesis by (rule fetch_result_error)
      qed
    qed
  qed
qed

lemma run_script_calls:
  assumes "has_connection m" and "new_cursor drv (db m) = None"
  shows "\<exists>ext. calls (snd (run_script_and_get_last_result drv script params m))
                 = calls m @ CursorOpen # ext @ [CursorClose] \<and> list_all is_execute ext"
proof -
  let ?m1 = "m\<lparr>calls := calls m @ [CursorOpen]\<rparr>"
  obtain r m2 where body: "run_script_body drv (batches_of script) params ?m1 = (r, m2)"
    by (cases "run_script_body drv (batches_of script) params ?m1")
  obtain ext where "calls m2 = calls ?m1 @ ext" and "list_all is_execute ext"
    using run_script_body_executes [of drv "batches_of script" params ?m1] body by auto
  with assms body show ?thesis
    by (simp add: run_script_and_get_last_result_def open_cursor_def close_cursor_def)
qed


lemma run_script_error:
  assumes "has_connection m" and "fst (run_script_and_get_last_result drv script params m) = Inl e"
  shows "\<not> is_connection_error e"
proof (cases "new_cursor drv (db m)")
  case (Some err)
  with assms show ?thesis
    by (auto simp: run_script_and_get_last_result_def open_cursor_def is_connection_error_def)
next
  case None
  with assms have "fst (run_script_body drv (batches_of script) params (m\<lparr>calls := calls m @ [CursorOpen]\<rparr>)) = Inl e"
    by (simp add: run_script_and_get_last_result_def open_cursor_def split: prod.splits)
  then show ?thesis by (rule run_script_body_error)
qed

lemma execute_query_calls:
  assumes "has_connection m"
  shows "calls (snd (execute_query drv query params m)) =
     calls m @ (case new_cursor drv (db m) of
                  Some e \<Rightarrow> [CursorOpen]
                | None \<Rightarrow> [CursorOpen, Execute query (params_or_none params), CursorClose])"
  using assms
  by (simp add: execute_query_def open_cursor_def cursor_execute_def close_cursor_def Let_def
        split: option.splits prod.splits sum.splits)

lemma execute_query_wraps:
  assumes "fst (execute_query drv query params m) = Inl e"
  shows "e = DatabaseConnectionError ''Database connection not established'' None
         \<or> (\<exists>s. e = DatabaseConnectionError (''Error executing query: '' @ s) (Some (DriverError s)))"
  using assms
  by (auto simp: execute_query_def open_cursor_def not_established_def query_error_def
        split: if_splits option.splits prod.splits sum.splits)

lemma read_sql_wraps:
  assumes "has_connection m" and "pd_read_sql query m = (Inl err, m')"
  shows "read_sql pd_read_sql query m =
           (Inl (DatabaseConnectionError (''Error executing query: '' @ exn_str err) (Some err)), m')"
  using assms by (simp add: read_sql_def)

lemma setup_connection_wraps:
  assumes "fst (setup_connection drv native get_token server database drivername localRun m) = Inl e"
  shows "\<exists>err. e = DatabaseConnectionError (''Database connection not established: '' @ exn_str err)
                     (Some err)"
  using assms
  by (auto simp: setup_connection_def do_connect_def setup_failed_def Let_def
        split: if_splits option.splits sum.splits)

lemma call_procedure_calls:
  assumes "has_connection m"
  shows "calls (snd (call_stored_procedure_with_select drv procedure_name params temp_table_name m)) =
     calls m @ (case new_cursor drv (db m) of
                  Some e \<Rightarrow> [CursorOpen]
                | None \<Rightarrow> [CursorOpen,
                    Execute (sql_query procedure_name (fst (bind_parameters params)) temp_table_name)
                            (snd (bind_parameters params))])"
proof (cases "new_cursor drv (db m)")
  case (Some e)
  with assms show ?thesis
    by (simp add: call_procedure_no_cursor procedure_failed_def log_def)
next
  case None
  obtain ph ps where b: "bind_parameters params = (ph, ps)" by (cases "bind_parameters params")
  obtain r d' where ex: "exec drv (db m) (sql_query procedure_name ph temp_table_name) ps = (r, d')"
    by (cases "exec drv (db m) (sql_query procedure_name ph temp_table_name) ps")
  show ?thesis
  proof (cases r)
    case (Inl e)
    with assms None b ex show ?thesis
      by (simp add: call_procedure_exec_raises procedure_failed_def log_def)
  next
    case (Inr p)
    then obtain r0 following where "r = Inr (r0, following)" by (cases p) simp
    with assms None b ex show ?thesis
      by (simp add: call_procedure_executed procedure_failed_def log_def Let_def
            split: scan.splits del: first_frame.simps)
  qed
qed

lemma connection_commit_calls: "calls (snd (connection_commit drv m)) = calls m @ [Commit]"
  by (simp add: connection_commit_def Let_def split: prod.splits option.splits)

lemma run_multistatement_calls:
  assumes "has_connection m"
  shows "\<exists>ext. list_all is_execute ext
           \<and> (calls (snd (run_multistatement_script drv script m)) = calls m @ CursorOpen # ext
                \<and> (\<exists>s. fst (run_multistatement_script drv script m) = Inl (DriverError s))
              \<or> calls (snd (run_multistatement_script drv script m))
                   = calls m @ CursorOpen # map (\<lambda>s. Execute s []) (statements_of script) @ [Commit])"
proof (cases "new_cursor drv (db m)")
  case (Some e)
  with assms have "calls (snd (run_multistatement_script drv script m)) = calls m @ CursorOpen # []"
    and "fst (run_multistatement_script drv script m) = Inl (DriverError e)"
    by (simp_all add: run_multistatement_script_def open_cursor_def)
  then show ?thesis by (intro exI [of _ "[]"]) simp
next
  case None
  let ?m1 = "m\<lparr>calls := calls m @ [CursorOpen]\<rparr>"
  let ?ss = "split (strip script) '';''"
  obtain o2 m2 where st: "execute_statements drv ?ss ?m1 = (o2, m2)"
    by (cases "execute_statements drv ?ss ?m1")
  show ?thesis
  proof (cases o2)
    case (Some e)
    with st obtain s where s: "e = DriverError s"
      using execute_statements_error by blast
    obtain ext where ext: "calls m2 = calls ?m1 @ ext" "list_all is_execute ext"
      using execute_statements_executes [of drv ?ss ?m1] st by auto
    from assms None st Some s
    have "fst (run_multistatement_script drv script m) = Inl (DriverError s)"
      and "snd (run_multistatement_script drv script m) = m2"
      by (simp_all add: run_multistatement_script_def open_cursor_def)
    with ext show ?thesis by (intro exI [of _ ext]) simp
  next
    case None2: None
    with st have "calls m2 = calls ?m1 @ map (\<lambda>s. Execute s []) (statements_of script)"
      using execute_statements_all [of drv ?ss ?m1 m2] by (simp add: statements_of_def)
    moreover from assms None st None2
    have "snd (run_multistatement_script drv script m) = snd (connection_commit drv m2)"
      by (simp add: run_multistatement_script_def open_cursor_def)
    ultimately have "calls (snd (run_multistatement_script drv script m))
        = calls m @ CursorOpen # map (\<lambda>s. Execute s []) (statements_of script) @ [Commit]"
      by (simp add: connection_commit_calls)
    then show ?thesis by (intro exI [of _ "[]"]) simp
  qed
qed

lemma run_multistatement_error:
  assumes "has_connection m" and "fst (run_multistatement_script drv script m) = Inl e"
  shows "\<exists>s. e = DriverError s"
proof (cases "new_cursor drv (db m)")
  case (Some err)
  with assms show ?thesis
    by (auto simp: run_multistatement_script_def open_cursor_def)
next
  case None
  let ?m1 = "m\<lparr>calls := calls m @ [CursorOpen]\<rparr>"
  obtain o2 m2 where st: "execute_statements drv (split (strip script) '';'') ?m1 = (o2, m2)"
    by (cases "execute_statements drv (split (strip script) '';'') ?m1")
  show ?thesis
  proof (cases o2)
    case (Some e2)
    with st obtain s where "e2 = DriverError s"
      using execute_statements_error by blast
    with assms None st Some show ?thesis
      by (auto simp: run_multistatement_script_def open_cursor_def)
  next
    case None2: None
    with assms None st show ?thesis
      by (auto simp: run_multistatement_script_def open_cursor_def connection_commit_def Let_def
            split: prod.splits option.splits)
  qed
qed


lemma executes_only: "list_all is_execute (map (\<lambda>s. Execute s []) ss)"
  by (induction ss) simp_all

lemma run_multistatement_count:
  assumes "\<not> is_execute c" and "c \<noteq> CursorOpen" and "c \<noteq> Commit"
  shows "count_list (calls (snd (run_multistatement_script drv script m))) c = count_list (calls m) c"
proof (cases "has_connection m")
  case False
  then show ?thesis by (simp add: run_multistatement_script_def)
next
  case True
  from run_multistatement_calls [OF True, of drv script] obtain ext where
    "list_all is_execute ext"
    and "calls (snd (run_multistatement_script drv script m)) = calls m @ CursorOpen # ext
         \<or> calls (snd (run_multistatement_script drv script m))
              = calls m @ CursorOpen # map (\<lambda>s. Execute s []) (statements_of script) @ [Commit]"
    by blast
  with assms show ?thesis
    by (auto simp: count_executes executes_only)
qed

lemma call_procedure_count:
  assumes "\<not> is_execute c" and "c \<noteq> CursorOpen"
  shows "count_list (calls (snd (call_stored_procedure_with_select drv procedure_name params
            temp_table_name m))) c = count_list (calls m) c"
proof (cases "has_connection m")
  case False
  then show ?thesis by (simp add: call_stored_procedure_with_select_def)
next
  case True
  with assms show ?thesis
    by (cases c) (simp_all add: call_procedure_calls split: option.splits)
qed





subsection \<open>Commits\<close>




subsection \<open>Which errors are wrapped\<close>

lemma run_script_error_unwrapped:
  assumes "has_connection m" and "fst (run_script_and_get_last_result drv script ps m) = Inl e"
  shows "\<not> is_connection_error e"
  using assms by (rule run_script_error)

lemma run_multistatement_error_unwrapped:
  assumes "has_connection m" and "fst (run_multistatement_script drv script m) = Inl e"
  shows "\<not> is_connection_error e"
proof -
  from assms obtain s where "e = DriverError s"
    using run_multistatement_error by blast
  then show ?thesis by (simp add: is_connection_error_def)
qed

text \<open>
  C6. Every lower-layer error is to be wrapped in \<open>DatabaseConnectionError\<close> before it
  leaves an operation. \<open>read_sql\<close>, \<open>execute_query\<close> and \<open>_setup_connection\<close> do so in
  an \<open>except\<close> clause, with the driver's message and the error as cause;
  \<open>run_script_and_get_last_result\<close> has \<open>try\<close> and \<open>finally\<close> without \<open>except\<close> and
  \<open>run_multistatement_script\<close> has no \<open>try\<close>. Evaluated on the example driver, whose
  \<open>execute\<close> raises on an unknown statement: from the last two the driver's error reaches
  the caller as it is, from \<open>execute_query\<close> and \<open>read_sql\<close> it arrives wrapped.
\<close>

theorem driver_error_escapes_unwrapped:
  "fst (run_script_and_get_last_result example_driver ''SELECT * FROM missing'' None connected)
     = Inl (DriverError ''boom'')
   \<and> fst (run_multistatement_script example_driver ''DROP TABLE missing'' connected)
     = Inl (DriverError ''boom'')
   \<and> fst (execute_query example_driver ''SELECT * FROM missing'' None connected)
     = Inl (DatabaseConnectionError ''Error executing query: boom'' (Some (DriverError ''boom'')))
   \<and> fst (read_sql (cursor_reader example_driver) ''SELECT * FROM missing'' connected)
     = Inl (DatabaseConnectionError ''Error executing query: boom'' (Some (DriverError ''boom'')))"
  by code_simp

subsection \<open>Cursor release\<close>

lemma run_script_releases_cursor:
  assumes "has_connection m" and "new_cursor drv (db m) = None"
  shows "count_list (calls (snd (run_script_and_get_last_result drv script params m))) CursorClose
           = count_list (calls m) CursorClose + 1"
proof -
  obtain ext where "calls (snd (run_script_and_get_last_result drv script params m))
                 = calls m @ CursorOpen # ext @ [CursorClose]" and "list_all is_execute ext"
    using run_script_calls [OF assms] by blast
  then show ?thesis by (simp add: count_executes)
qed

lemma execute_query_releases_cursor:
  assumes "has_connection m" and "new_cursor drv (db m) = None"
  shows "calls (snd (execute_query drv query params m))
           = calls m @ [CursorOpen, Execute query (params_or_none params), CursorClose]"
  using assms by (simp add: execute_query_calls)

lemma run_multistatement_never_closes:
  "count_list (calls (snd (run_multistatement_script drv script m))) CursorClose
     = count_list (calls m) CursorClose"
  by (rule run_multistatement_count) simp_all

lemma call_procedure_never_closes:
  "count_list (calls (snd (call_stored_procedure_with_select drv procedure_name params
      temp_table_name m))) CursorClose = count_list (calls m) CursorClose"
  by (rule call_procedure_count) simp_all

text \<open>
  C3. Every cursor an operation obtains is to be closed before the operation returns.
  \<open>execute_query\<close> and \<open>run_script_and_get_last_result\<close> close theirs in a \<open>finally\<close>, also
  when the statement fails; \<open>run_multistatement_script\<close> and
  \<open>call_stored_procedure_with_select\<close> obtain a cursor and never close it. Evaluated on the
  example driver: the first two traces have no \<open>CursorClose\<close>, the third, whose statement
  fails, has one.
\<close>

theorem cursors_left_open:
  "calls (snd (run_multistatement_script example_driver ''DELETE FROM t;SELECT 1'' connected))
     = [CursorOpen, Execute ''DELETE FROM t'' [], Execute ''SELECT 1'' [], Commit]
   \<and> calls (snd (call_stored_procedure_with_select example_driver ''fill_tmp'' (ParamList [PyInt 9])
         ''#tmp'' connected))
     = [CursorOpen, Execute (sql_query ''fill_tmp'' ''?'' ''#tmp'') [PyInt 9]]
   \<and> calls (snd (execute_query example_driver ''SELECT * FROM missing'' None connected))
     = [CursorOpen, Execute ''SELECT * FROM missing'' [], CursorClose]"
  by code_simp

end
